theory Spec2Isabelle
  imports Main "HOL-Library.Word"
begin

section \<open>Subscription and feature-gating hooks (frontend/src/hooks/useSubscriptions.ts)\<close>

text \<open>
  A shallow embedding of the hooks of \<^verbatim>\<open>useSubscriptions.ts\<close>. Each hook hands an options
  object to the data-fetching library (\<^verbatim>\<open>useQuery\<close>, \<^verbatim>\<open>useMutation\<close>); the embedding of a
  hook is that options object, and the behaviour verified is the one of its asynchronous
  function (\<^verbatim>\<open>queryFn\<close>, \<^verbatim>\<open>mutationFn\<close>). The library itself (cache, freshness window,
  observable pending/success/error state) is an external collaborator and is not modelled.
\<close>

subsection \<open>Strings, errors and asynchronous results\<close>

text \<open>
  A JavaScript string is a sequence of 16-bit code units. \<open>js\<close> writes a literal: each
  character of an Isabelle string literal is the code unit of the same number.
\<close>

type_synonym jsstring = "16 word list"

definition js :: "string \<Rightarrow> jsstring" where
  "js s = map of_char s"

text \<open>
  The values the code can throw: \<^verbatim>\<open>new Error(message)\<close>, the \<^verbatim>\<open>SyntaxError\<close> of
  \<^verbatim>\<open>JSON.parse\<close>, and any other failure raised by the remote side, identified by a tag.
\<close>

datatype js_error = Error jsstring | SyntaxError | RemoteFailure jsstring


text \<open>
  An asynchronous function is run against the state of the world outside the hooks: the
  browser location it may read and the log of remote calls issued so far (oldest first).
  It returns how its promise settles (\<open>Inl\<close> the rejection, \<open>Inr\<close> the resolved value) and
  the world it leaves behind.
\<close>

record Location =
  protocol :: jsstring
  host :: jsstring

text \<open>
  \<^verbatim>\<open>ShoppingItem = { priceId: string; quantity: number }\<close>. The hooks only forward items,
  so the representation of a JavaScript number is left as the type parameter \<open>'n\<close>.
\<close>

record 'n ShoppingItem =
  priceId :: jsstring
  quantity :: 'n

text \<open>The arguments of one call of the remote \<^verbatim>\<open>createCheckoutSession\<close>.\<close>

record 'n remote_call =
  arg_items :: "'n ShoppingItem list"
  arg_successUrl :: jsstring
  arg_cancelUrl :: jsstring

record 'n world =
  location :: Location
  calls :: "'n remote_call list"

type_synonym ('a, 'n) async = "'n world \<Rightarrow> (js_error + 'a) \<times> 'n world"

text \<open>The options handed to \<^verbatim>\<open>useQuery\<close> and to \<^verbatim>\<open>useMutation\<close>.\<close>

datatype key_part = KString jsstring | KUndefined

record ('a, 'n) query_options =
  queryKey :: "key_part list"
  queryFn :: "('a, 'n) async"
  staleTime :: nat

record ('i, 'a, 'n) mutation_options =
  mutationFn :: "'i \<Rightarrow> ('a, 'n) async"

subsection \<open>Feature access\<close>

datatype FeatureScope = User | Club | Team

fun scope_string :: "FeatureScope \<Rightarrow> jsstring" where
  "scope_string User = js ''user''"
| "scope_string Club = js ''club''"
| "scope_string Team = js ''team''"

datatype Plan = Free | Plus | Pro

record FeatureAccess =
  hasAccess :: bool
  plan :: "Plan option"
  reason :: "jsstring option"

text \<open>
  \<^verbatim>\<open>const freeAllowed = new Set<string>([ /* e.g., 'basic_chat' */ ])\<close>: the elements the
  set is built from. \<^verbatim>\<open>freeAllowed.has(feature)\<close> is membership in that list.
\<close>

definition freeAllowed :: "jsstring list" where
  "freeAllowed = []"

text \<open>
  \<^verbatim>\<open>useCanAccessFeature(feature, scope = 'user', scopeId?)\<close>. An omitted argument is
  \<open>None\<close>; the default of \<^verbatim>\<open>scope\<close> is applied as the language does.
\<close>

definition useCanAccessFeature ::
  "jsstring \<Rightarrow> FeatureScope option \<Rightarrow> jsstring option \<Rightarrow> (FeatureAccess, 'n) query_options" where
  "useCanAccessFeature feature scope_arg scopeId =
     (let scope = (case scope_arg of None \<Rightarrow> User | Some s \<Rightarrow> s) in
      \<lparr> queryKey =
          [KString (js ''feature-access''), KString feature, KString (scope_string scope),
           (case scopeId of None \<Rightarrow> KUndefined | Some i \<Rightarrow> KString i)],
        queryFn = (\<lambda>w.
          if feature \<in> set freeAllowed
          then (Inr \<lparr> hasAccess = True, plan = Some Free, reason = None \<rparr>, w)
          else (Inr \<lparr> hasAccess = False, plan = Some Free, reason = Some (js ''stubbed'') \<rparr>, w)),
        staleTime = 60000 \<rparr>)"

text \<open>Friendly aliases used around the app.\<close>

definition useFeatureAccess ::
  "jsstring \<Rightarrow> FeatureScope option \<Rightarrow> jsstring option \<Rightarrow> (FeatureAccess, 'n) query_options" where
  "useFeatureAccess = useCanAccessFeature"

definition useCanAccessProFeatures :: "(FeatureAccess, 'n) query_options" where
  "useCanAccessProFeatures = useCanAccessFeature (js ''pro_features'') (Some User) None"

definition useCanAccessAdvancedChat ::
  "FeatureScope option \<Rightarrow> jsstring option \<Rightarrow> (FeatureAccess, 'n) query_options" where
  "useCanAccessAdvancedChat scope_arg scopeId =
     (let scope = (case scope_arg of None \<Rightarrow> Club | Some s \<Rightarrow> s) in
      useCanAccessFeature (js ''advanced_chat'') (Some scope) scopeId)"

definition useCanAccessSocialFeed ::
  "FeatureScope option \<Rightarrow> jsstring option \<Rightarrow> (FeatureAccess, 'n) query_options" where
  "useCanAccessSocialFeed scope_arg scopeId =
     (let scope = (case scope_arg of None \<Rightarrow> Club | Some s \<Rightarrow> s) in
      useCanAccessFeature (js ''social_feed'') (Some scope) scopeId)"

definition useCanCreateUnlimitedAnnouncements ::
  "FeatureScope option \<Rightarrow> jsstring option \<Rightarrow> (FeatureAccess, 'n) query_options" where
  "useCanCreateUnlimitedAnnouncements scope_arg scopeId =
     (let scope = (case scope_arg of None \<Rightarrow> Club | Some s \<Rightarrow> s) in
      useCanAccessFeature (js ''unlimited_announcements'') (Some scope) scopeId)"

subsection \<open>Subscription status (stubs)\<close>

text \<open>
  The status \<^verbatim>\<open>'active' | 'canceled' | 'none'\<close>, with \<open>NoSubscription\<close> for \<^verbatim>\<open>'none'\<close>.
  The field \<^verbatim>\<open>plan\<close> of the status is \<open>current_plan\<close> here and the fields of a
  subscription carry a prefix, since a field name belongs to one record only.
\<close>

datatype SubscriptionState = Active | Canceled | NoSubscription

record SubscriptionStatus =
  current_plan :: Plan
  status :: SubscriptionState

record Subscription =
  subscription_id :: jsstring
  subscription_plan :: Plan
  subscription_status :: jsstring

definition useGetSubscriptionStatus :: "(SubscriptionStatus, 'n) query_options" where
  "useGetSubscriptionStatus =
     \<lparr> queryKey = [KString (js ''subscription-status'')],
       queryFn = (\<lambda>w. (Inr \<lparr> current_plan = Free, status = NoSubscription \<rparr>, w)),
       staleTime = 60000 \<rparr>"

definition useHasProAccess :: "(bool, 'n) query_options" where
  "useHasProAccess =
     \<lparr> queryKey = [KString (js ''has-pro-access'')],
       queryFn = (\<lambda>w. (Inr False, w)),
       staleTime = 60000 \<rparr>"

definition useGetAllSubscriptions :: "(Subscription list, 'n) query_options" where
  "useGetAllSubscriptions =
     \<lparr> queryKey = [KString (js ''all-subscriptions'')],
       queryFn = (\<lambda>w. (Inr [], w)),
       staleTime = 60000 \<rparr>"

record UpgradeOptions =
  paymentMethodId :: "jsstring option"

record MutationOutcome =
  success :: bool

definition useUpgradeToProPlan :: "(UpgradeOptions option, MutationOutcome, 'n) mutation_options" where
  "useUpgradeToProPlan = \<lparr> mutationFn = (\<lambda>opts w. (Inr \<lparr> success = False \<rparr>, w)) \<rparr>"

definition useCancelProSubscription :: "(unit, MutationOutcome, 'n) mutation_options" where
  "useCancelProSubscription = \<lparr> mutationFn = (\<lambda>_ w. (Inr \<lparr> success = False \<rparr>, w)) \<rparr>"

subsection \<open>The built-in \<^verbatim>\<open>JSON.parse\<close>\<close>

text \<open>
  \<^verbatim>\<open>JSON.parse(text)\<close> without a reviver, after the JSON grammar of ECMA-404 that the
  language standard prescribes: it returns the value the text denotes, or throws a
  \<^verbatim>\<open>SyntaxError\<close> when the text is not a single JSON value surrounded by optional white
  space. A number is the binary64 value nearest to the decimal the text denotes. An object
  is the list of its properties in the order the language enumerates them: array indices
  first, ascending, then the other keys in order of first definition; a repeated key
  overwrites the value in place, as \<^verbatim>\<open>CreateDataProperty\<close> does.
\<close>

text \<open>
  A Number that is not \<^verbatim>\<open>NaN\<close> (which no JSON text denotes): \<open>Finite neg n k\<close> is
  \<open>n * 2 ^ k\<close>, negated when \<open>neg\<close>, in the one form binary64 gives it: either
  \<open>2 ^ 52 \<le> n < 2 ^ 53\<close> and \<open>- 1074 \<le> k \<le> 971\<close>, or \<open>n < 2 ^ 52\<close> and \<open>k = - 1074\<close>
  (zero and the subnormal values); \<open>Infinity neg\<close> is the infinity of that sign.
\<close>

datatype js_number = Finite bool int int | Infinity bool

datatype json =
    JNull
  | JBool bool
  | JNumber js_number
  | JString jsstring
  | JArray "json list"
  | JObject "(jsstring \<times> json) list"

datatype token =
    TLBrace | TRBrace | TLBracket | TRBracket | TColon | TComma
  | TString jsstring | TNumber jsstring | TTrue | TFalse | TNull

text \<open>
  Code units are written as numbers: \<open>0x20\<close> space, \<open>0x09\<close> tab, \<open>0x0A\<close> line feed,
  \<open>0x0D\<close> carriage return; \<open>0x30\<close> to \<open>0x39\<close> the digits, \<open>0x41\<close> to \<open>0x46\<close> and
  \<open>0x61\<close> to \<open>0x66\<close> the letters A to F and a to f; \<open>0x22\<close> the double quote,
  \<open>0x5C\<close> the backslash, \<open>0x2F\<close> the slash; \<open>0x7B\<close>, \<open>0x7D\<close> the braces, \<open>0x5B\<close>,
  \<open>0x5D\<close> the brackets, \<open>0x3A\<close> the colon, \<open>0x2C\<close> the comma; \<open>0x2D\<close> minus,
  \<open>0x2B\<close> plus, \<open>0x2E\<close> the point, \<open>0x65\<close> and \<open>0x45\<close> the letters e and E.
\<close>

definition is_ws :: "16 word \<Rightarrow> bool" where
  "is_ws c = (c = 0x20 \<or> c = 0x09 \<or> c = 0x0A \<or> c = 0x0D)"

definition is_digit :: "16 word \<Rightarrow> bool" where
  "is_digit c = (0x30 \<le> c \<and> c \<le> 0x39)"

definition hex_value :: "16 word \<Rightarrow> 16 word option" where
  "hex_value c =
     (if 0x30 \<le> c \<and> c \<le> 0x39 then Some (c - 0x30)
      else if 0x41 \<le> c \<and> c \<le> 0x46 then Some (c - 0x41 + 10)
      else if 0x61 \<le> c \<and> c \<le> 0x66 then Some (c - 0x61 + 10)
      else None)"

text \<open>
  The character after a backslash and the code unit it stands for: the double quote, the
  backslash and the slash stand for themselves, \<^verbatim>\<open>b f n r t\<close> for backspace, form feed,
  line feed, carriage return and tab. (\<^verbatim>\<open>u\<close>, \<open>0x75\<close>, with four hexadecimal digits is
  read in \<open>lex_string\<close>.)
\<close>

definition escape_value :: "16 word \<Rightarrow> 16 word option" where
  "escape_value c =
     (if c = 0x22 then Some 0x22
      else if c = 0x5C then Some 0x5C
      else if c = 0x2F then Some 0x2F
      else if c = 0x62 then Some 0x08
      else if c = 0x66 then Some 0x0C
      else if c = 0x6E then Some 0x0A
      else if c = 0x72 then Some 0x0D
      else if c = 0x74 then Some 0x09
      else None)"

text \<open>
  The characters of a string after its opening quote, up to the closing quote: escapes are
  decoded, an unescaped control character (below U+0020) is an error.
\<close>

fun lex_string :: "jsstring \<Rightarrow> jsstring \<Rightarrow> (jsstring \<times> jsstring) option" where
  "lex_string [] acc = None"
| "lex_string (c # cs) acc =
     (if c = 0x22 then Some (rev acc, cs)
      else if c = 0x5C then
        (case cs of
           [] \<Rightarrow> None
         | e # es \<Rightarrow>
             if e = 0x75 then
               (case es of
                  h1 # h2 # h3 # h4 # rest \<Rightarrow>
                    (case (hex_value h1, hex_value h2, hex_value h3, hex_value h4) of
                       (Some a, Some b, Some c', Some d) \<Rightarrow>
                         lex_string rest ((((a * 16 + b) * 16 + c') * 16 + d) # acc)
                     | _ \<Rightarrow> None)
                | _ \<Rightarrow> None)
             else
               (case escape_value e of
                  None \<Rightarrow> None
                | Some v \<Rightarrow> lex_string es (v # acc)))
      else if c < 0x20 then None
      else lex_string cs (c # acc))"

text \<open>
  A number is \<^verbatim>\<open>-? (0 | [1-9][0-9]*) (. [0-9]+)? ([eE] [+-]? [0-9]+)?\<close>. Each part
  returns what it consumed and the rest of the text.
\<close>

fun lex_minus :: "jsstring \<Rightarrow> jsstring \<times> jsstring" where
  "lex_minus [] = ([], [])"
| "lex_minus (c # cs) = (if c = 0x2D then ([c], cs) else ([], c # cs))"

fun lex_int :: "jsstring \<Rightarrow> (jsstring \<times> jsstring) option" where
  "lex_int [] = None"
| "lex_int (d # ds) =
     (if d = 0x30 then Some ([d], ds)
      else if is_digit d then Some (d # takeWhile is_digit ds, dropWhile is_digit ds)
      else None)"

fun lex_frac :: "jsstring \<Rightarrow> (jsstring \<times> jsstring) option" where
  "lex_frac [] = Some ([], [])"
| "lex_frac (c # cs) =
     (if c = 0x2E then
        (if takeWhile is_digit cs = [] then None
         else Some (c # takeWhile is_digit cs, dropWhile is_digit cs))
      else Some ([], c # cs))"

fun lex_exp_sign :: "jsstring \<Rightarrow> jsstring \<times> jsstring" where
  "lex_exp_sign [] = ([], [])"
| "lex_exp_sign (c # cs) = (if c = 0x2B \<or> c = 0x2D then ([c], cs) else ([], c # cs))"

fun lex_exp :: "jsstring \<Rightarrow> (jsstring \<times> jsstring) option" where
  "lex_exp [] = Some ([], [])"
| "lex_exp (c # cs) =
     (if c = 0x65 \<or> c = 0x45 then
        (case lex_exp_sign cs of
           (sg, r) \<Rightarrow>
             if takeWhile is_digit r = [] then None
             else Some (c # sg @ takeWhile is_digit r, dropWhile is_digit r))
      else Some ([], c # cs))"

definition lex_number :: "jsstring \<Rightarrow> (jsstring \<times> jsstring) option" where
  "lex_number cs =
     (case lex_minus cs of
        (sg, r0) \<Rightarrow>
          (case lex_int r0 of
             None \<Rightarrow> None
           | Some (ip, r1) \<Rightarrow>
               (case lex_frac r1 of
                  None \<Rightarrow> None
                | Some (fp, r2) \<Rightarrow>
                    (case lex_exp r2 of
                       None \<Rightarrow> None
                     | Some (ep, r3) \<Rightarrow> Some (sg @ ip @ fp @ ep, r3)))))"

text \<open>
  The value of a number: the decimal \<open>m * 10 ^ e\<close> of its digits, rounded to the nearest
  binary64 value, to the even one of two that are equally near, and to an infinity from
  \<open>2 ^ 1024 - 2 ^ 970\<close> on. (For a literal of more than twenty significant digits the
  language also permits the rounding of the literal cut after the twentieth digit; the
  rounding of the exact decimal, which the engines implement, is the one taken here.)
  \<open>bit_length\<close> is the number of binary digits of a positive integer; in
  \<open>round_binary64\<close>, \<open>lg\<close> is the integer part of the binary logarithm of the decimal,
  \<open>k\<close> the exponent of the result and \<open>n\<close> its rounded significand.
\<close>

function bit_length :: "int \<Rightarrow> int" where
  "bit_length n = (if n \<le> 0 then 0 else 1 + bit_length (n div 2))"
  by pat_completeness auto
termination
  by (relation "measure nat") auto

definition round_binary64 :: "bool \<Rightarrow> int \<Rightarrow> int \<Rightarrow> js_number" where
  "round_binary64 neg m e =
     (if m = 0 then Finite neg 0 (- 1074)
      else
        let a = (if 0 \<le> e then m * 10 ^ nat e else m);
            b = (if 0 \<le> e then 1 else 10 ^ nat (- e));
            d = bit_length a - bit_length b;
            lg = (if (if 0 \<le> d then b * 2 ^ nat d \<le> a else b \<le> a * 2 ^ nat (- d))
                  then d else d - 1);
            k = max (lg - 52) (- 1074);
            num = (if 0 \<le> k then a else a * 2 ^ nat (- k));
            den = (if 0 \<le> k then b * 2 ^ nat k else b);
            q = num div den;
            r = num mod den;
            n = (if den < 2 * r \<or> (2 * r = den \<and> odd q) then q + 1 else q)
        in if n = 2 ^ 53
           then (if 971 < k + 1 then Infinity neg else Finite neg (2 ^ 52) (k + 1))
           else (if 971 < k then Infinity neg else Finite neg n k))"

definition digits_value :: "jsstring \<Rightarrow> int" where
  "digits_value ds = foldl (\<lambda>n d. 10 * n + uint (d - 0x30)) 0 ds"

fun split_sign :: "jsstring \<Rightarrow> bool \<times> jsstring" where
  "split_sign [] = (False, [])"
| "split_sign (c # cs) =
     (if c = 0x2D then (True, cs) else if c = 0x2B then (False, cs) else (False, c # cs))"

text \<open>The value of the text of a number, as \<open>lex_number\<close> returns it.\<close>

definition number_value :: "jsstring \<Rightarrow> js_number" where
  "number_value lexeme =
     (case split_sign lexeme of
        (neg, body) \<Rightarrow>
          let ip = takeWhile is_digit body;
              r1 = dropWhile is_digit body;
              has_frac = (r1 \<noteq> [] \<and> hd r1 = 0x2E);
              fp = (if has_frac then takeWhile is_digit (tl r1) else []);
              r2 = (if has_frac then dropWhile is_digit (tl r1) else r1);
              e = (case r2 of
                     [] \<Rightarrow> 0
                   | _ # r \<Rightarrow>
                       (case split_sign r of
                          (eneg, ds) \<Rightarrow>
                            if eneg then - digits_value ds else digits_value ds))
          in round_binary64 neg (digits_value (ip @ fp)) (e - int (length fp)))"

lemma lex_string_shorter:
  "lex_string cs acc = Some (v, r) \<Longrightarrow> length r < length cs"
proof (induction cs acc rule: lex_string.induct)
  case (1 acc)
  then show ?case by simp
next
  case (2 c cs acc)
  then show ?case
    apply (simp split: if_splits list.splits option.splits)
    apply fastforce+
    done
qed

lemma lex_minus_le: "lex_minus cs = (sg, r) \<Longrightarrow> length r \<le> length cs"
  by (cases cs) (auto split: if_splits)

lemma lex_int_shorter: "lex_int cs = Some (v, r) \<Longrightarrow> length r < length cs"
  by (cases cs) (auto split: if_splits simp: less_Suc_eq_le length_dropWhile_le)

lemma lex_frac_le: "lex_frac cs = Some (v, r) \<Longrightarrow> length r \<le> length cs"
  by (cases cs) (auto split: if_splits simp: le_SucI length_dropWhile_le)

lemma lex_exp_sign_le: "lex_exp_sign cs = (sg, r) \<Longrightarrow> length r \<le> length cs"
  by (cases cs) (auto split: if_splits)

lemma lex_exp_le: "lex_exp cs = Some (v, r) \<Longrightarrow> length r \<le> length cs"
proof (cases cs)
  case Nil
  assume "lex_exp cs = Some (v, r)"
  with Nil show ?thesis by simp
next
  case (Cons c cs')
  assume a: "lex_exp cs = Some (v, r)"
  show ?thesis
  proof (cases "c = 0x65 \<or> c = 0x45")
    case False
    with a Cons show ?thesis by auto
  next
    case True
    obtain sg r' where s: "lex_exp_sign cs' = (sg, r')" by (cases "lex_exp_sign cs'")
    from a Cons True s have "r = dropWhile is_digit r'"
      by (auto split: if_splits)
    moreover have "length (dropWhile is_digit r') \<le> length r'" by (rule length_dropWhile_le)
    moreover from s have "length r' \<le> length cs'" by (rule lex_exp_sign_le)
    ultimately show ?thesis using Cons by simp
  qed
qed

lemma lex_number_shorter:
  assumes "lex_number cs = Some (v, r)"
  shows "length r < length cs"
proof -
  obtain sg r0 where m: "lex_minus cs = (sg, r0)" by (cases "lex_minus cs")
  from assms m obtain ip r1 where i: "lex_int r0 = Some (ip, r1)"
    by (auto simp: lex_number_def split: option.splits)
  from assms m i obtain fp r2 where f: "lex_frac r1 = Some (fp, r2)"
    by (auto simp: lex_number_def split: option.splits)
  from assms m i f obtain ep where e: "lex_exp r2 = Some (ep, r)"
    by (auto simp: lex_number_def split: option.splits)
  from lex_minus_le [OF m] lex_int_shorter [OF i] lex_frac_le [OF f] lex_exp_le [OF e]
  show ?thesis by simp
qed

text \<open>The text as a list of tokens; \<open>None\<close> when some character starts no token.\<close>

definition is_prefix :: "jsstring \<Rightarrow> jsstring \<Rightarrow> bool" where
  "is_prefix p cs = (take (length p) cs = p)"

function tokenize :: "jsstring \<Rightarrow> token list option" where
  "tokenize [] = Some []"
| "tokenize (c # cs) =
     (if is_ws c then tokenize cs
      else if c = 0x7B then map_option (Cons TLBrace) (tokenize cs)
      else if c = 0x7D then map_option (Cons TRBrace) (tokenize cs)
      else if c = 0x5B then map_option (Cons TLBracket) (tokenize cs)
      else if c = 0x5D then map_option (Cons TRBracket) (tokenize cs)
      else if c = 0x3A then map_option (Cons TColon) (tokenize cs)
      else if c = 0x2C then map_option (Cons TComma) (tokenize cs)
      else if c = 0x22 then
        (case lex_string cs [] of
           None \<Rightarrow> None
         | Some (v, r) \<Rightarrow> map_option (Cons (TString v)) (tokenize r))
      else if c = 0x2D \<or> is_digit c then
        (case lex_number (c # cs) of
           None \<Rightarrow> None
         | Some (v, r) \<Rightarrow> map_option (Cons (TNumber v)) (tokenize r))
      else if is_prefix (js ''true'') (c # cs) then map_option (Cons TTrue) (tokenize (drop 3 cs))
      else if is_prefix (js ''false'') (c # cs) then map_option (Cons TFalse) (tokenize (drop 4 cs))
      else if is_prefix (js ''null'') (c # cs) then map_option (Cons TNull) (tokenize (drop 3 cs))
      else None)"
  by pat_completeness auto
termination
  apply (relation "measure length")
  apply simp_all
  subgoal for c cs x2 x y using lex_string_shorter [of cs "[]" x y] by auto
  subgoal for c cs x2 x y using lex_number_shorter [of "c # cs" x y] by auto
  done

text \<open>
  The tokens are read by a pushdown automaton: the stack holds the arrays and objects that
  are still open, \<open>expect\<close> says what may come next.
\<close>

text \<open>
  A key is an array index when it is the decimal text, without a leading zero, of a number
  up to \<open>2 ^ 32 - 2\<close>.
\<close>

definition array_index :: "jsstring \<Rightarrow> int option" where
  "array_index k =
     (if k \<noteq> [] \<and> list_all is_digit k \<and> (hd k \<noteq> 0x30 \<or> length k = 1)
         \<and> digits_value k < 4294967295
      then Some (digits_value k) else None)"

fun replace_property :: "jsstring \<Rightarrow> json \<Rightarrow> (jsstring \<times> json) list \<Rightarrow> (jsstring \<times> json) list" where
  "replace_property k v [] = []"
| "replace_property k v ((k', v') # ps) =
     (if k' = k then (k, v) # ps else (k', v') # replace_property k v ps)"

fun insert_property :: "jsstring \<Rightarrow> json \<Rightarrow> (jsstring \<times> json) list \<Rightarrow> (jsstring \<times> json) list" where
  "insert_property k v [] = [(k, v)]"
| "insert_property k v ((k', v') # ps) =
     (case array_index k of
        None \<Rightarrow> (k', v') # insert_property k v ps
      | Some i \<Rightarrow>
          (case array_index k' of
             None \<Rightarrow> (k, v) # (k', v') # ps
           | Some j \<Rightarrow>
               if i < j then (k, v) # (k', v') # ps else (k', v') # insert_property k v ps))"

definition define_property :: "jsstring \<Rightarrow> json \<Rightarrow> (jsstring \<times> json) list \<Rightarrow> (jsstring \<times> json) list" where
  "define_property k v ps =
     (case map_of ps k of
        None \<Rightarrow> insert_property k v ps
      | Some old \<Rightarrow> replace_property k v ps)"

datatype frame = InArray "json list" | InObject "(jsstring \<times> json) list" "jsstring option"

datatype expect = Value | ValueOrClose | KeyOrClose | Key | Colon | CommaOrClose | End json

fun deliver :: "json \<Rightarrow> frame list \<Rightarrow> (expect \<times> frame list) option" where
  "deliver v [] = Some (End v, [])"
| "deliver v (InArray xs # st) = Some (CommaOrClose, InArray (xs @ [v]) # st)"
| "deliver v (InObject ps (Some k) # st) =
     Some (CommaOrClose, InObject (define_property k v ps) None # st)"
| "deliver v (InObject ps None # st) = None"

fun open_value :: "token \<Rightarrow> frame list \<Rightarrow> (expect \<times> frame list) option" where
  "open_value TLBracket st = Some (ValueOrClose, InArray [] # st)"
| "open_value TLBrace st = Some (KeyOrClose, InObject [] None # st)"
| "open_value (TString s) st = deliver (JString s) st"
| "open_value (TNumber n) st = deliver (JNumber (number_value n)) st"
| "open_value TTrue st = deliver (JBool True) st"
| "open_value TFalse st = deliver (JBool False) st"
| "open_value TNull st = deliver JNull st"
| "open_value _ st = None"

fun close_frame :: "token \<Rightarrow> frame list \<Rightarrow> (expect \<times> frame list) option" where
  "close_frame TRBracket (InArray xs # st) = deliver (JArray xs) st"
| "close_frame TRBrace (InObject ps None # st) = deliver (JObject ps) st"
| "close_frame _ _ = None"

fun member_key :: "token \<Rightarrow> frame list \<Rightarrow> (expect \<times> frame list) option" where
  "member_key (TString k) (InObject ps None # st) = Some (Colon, InObject ps (Some k) # st)"
| "member_key _ _ = None"

fun after_comma :: "frame list \<Rightarrow> (expect \<times> frame list) option" where
  "after_comma (InArray xs # st) = Some (Value, InArray xs # st)"
| "after_comma (InObject ps None # st) = Some (Key, InObject ps None # st)"
| "after_comma _ = None"

fun step :: "expect \<Rightarrow> frame list \<Rightarrow> token \<Rightarrow> (expect \<times> frame list) option" where
  "step Value st t = open_value t st"
| "step ValueOrClose st t = (if t = TRBracket then close_frame t st else open_value t st)"
| "step KeyOrClose st t = (if t = TRBrace then close_frame t st else member_key t st)"
| "step Key st t = member_key t st"
| "step Colon st t = (if t = TColon then Some (Value, st) else None)"
| "step CommaOrClose st t = (if t = TComma then after_comma st else close_frame t st)"
| "step (End v) st t = None"

fun run :: "expect \<Rightarrow> frame list \<Rightarrow> token list \<Rightarrow> json option" where
  "run (End v) st [] = Some v"
| "run e st [] = None"
| "run e st (t # ts) =
     (case step e st t of None \<Rightarrow> None | Some (e', st') \<Rightarrow> run e' st' ts)"

definition JSON_parse :: "jsstring \<Rightarrow> js_error + json" where
  "JSON_parse text =
     (case tokenize text of
        None \<Rightarrow> Inl SyntaxError
      | Some ts \<Rightarrow> (case run Value [] ts of None \<Rightarrow> Inl SyntaxError | Some v \<Rightarrow> Inr v))"

subsection \<open>Stripe checkout\<close>

record CheckoutSession =
  id :: jsstring
  url :: jsstring

text \<open>
  The backend actor, as far as this file uses it: the one remote operation
  \<^verbatim>\<open>createCheckoutSession(items, successUrl, cancelUrl): Promise<string>\<close>, which either
  rejects or resolves with a text.
\<close>

record 'n Actor =
  createCheckoutSession :: "'n ShoppingItem list \<Rightarrow> jsstring \<Rightarrow> jsstring \<Rightarrow> js_error + jsstring"

text \<open>
  \<^verbatim>\<open>useCreateCheckoutSession\<close> takes the actor from \<^verbatim>\<open>useActor()\<close> (\<open>None\<close> when there is
  none) when the hook renders; the location is read when the mutation runs. The remote call
  is appended to the log of the world. The value returned is what \<^verbatim>\<open>JSON.parse\<close> gives:
  \<^verbatim>\<open>as CheckoutSession\<close> is a compile-time assertion and checks nothing at run time.
\<close>

definition useCreateCheckoutSession ::
  "'n Actor option \<Rightarrow> ('n ShoppingItem list, json, 'n) mutation_options" where
  "useCreateCheckoutSession actor =
     \<lparr> mutationFn = (\<lambda>items w.
         case actor of
           None \<Rightarrow> (Inl (Error (js ''Actor not available'')), w)
         | Some a \<Rightarrow>
             let baseUrl = protocol (location w) @ js ''//'' @ host (location w);
                 successUrl = baseUrl @ js ''/payment-success'';
                 cancelUrl = baseUrl @ js ''/payment-failure'';
                 w' = w\<lparr> calls := calls w @
                        [\<lparr> arg_items = items, arg_successUrl = successUrl,
                           arg_cancelUrl = cancelUrl \<rparr>] \<rparr>
             in (case createCheckoutSession a items successUrl cancelUrl of
                   Inl e \<Rightarrow> (Inl e, w')
                 | Inr result \<Rightarrow> (JSON_parse result, w'))) \<rparr>"

text \<open>
  The record shape the specification expects of the parsed value: an object whose
  properties \<^verbatim>\<open>id\<close> and \<^verbatim>\<open>url\<close> are strings.
\<close>

fun as_CheckoutSession :: "json \<Rightarrow> CheckoutSession option" where
  "as_CheckoutSession (JObject ps) =
     (case (map_of ps (js ''id''), map_of ps (js ''url'')) of
        (Some (JString i), Some (JString u)) \<Rightarrow> Some \<lparr> id = i, url = u \<rparr>
      | _ \<Rightarrow> None)"
| "as_CheckoutSession _ = None"

text \<open>
  The outcome of the mutation read as a record: the record the resolved value has the shape
  of, if it resolved with one.
\<close>

definition resolved_session :: "js_error + json \<Rightarrow> CheckoutSession option" where
  "resolved_session outcome = (case outcome of Inl e \<Rightarrow> None | Inr v \<Rightarrow> as_CheckoutSession v)"

text \<open>
  The JSON text of a session record, \<^verbatim>\<open>{"id":...,"url":...}\<close>, as \<^verbatim>\<open>JSON.stringify\<close> writes
  it for strings without lone surrogates: a string is quoted, its double quotes and
  backslashes are escaped with a backslash, backspace, tab, line feed, form feed and
  carriage return are written \<^verbatim>\<open>\b \t \n \f \r\<close>, and any other control character is
  written \<^verbatim>\<open>\u00\<close> and its two hexadecimal digits, in lower case.
\<close>

definition hex_digit :: "16 word \<Rightarrow> 16 word" where
  "hex_digit d = (if d < 10 then 0x30 + d else 0x61 + (d - 10))"

definition json_escape :: "16 word \<Rightarrow> jsstring" where
  "json_escape c =
     (if c = 0x22 \<or> c = 0x5C then [0x5C, c]
      else if c = 0x08 then [0x5C, 0x62]
      else if c = 0x09 then [0x5C, 0x74]
      else if c = 0x0A then [0x5C, 0x6E]
      else if c = 0x0C then [0x5C, 0x66]
      else if c = 0x0D then [0x5C, 0x72]
      else if c < 0x20 then [0x5C, 0x75, 0x30, 0x30, hex_digit (c div 16), hex_digit (c mod 16)]
      else [c])"

definition json_string :: "jsstring \<Rightarrow> jsstring" where
  "json_string s = 0x22 # concat (map json_escape s) @ [0x22]"

definition session_text :: "jsstring \<Rightarrow> jsstring \<Rightarrow> jsstring" where
  "session_text i u =
     js ''{'' @ json_string (js ''id'') @ js '':'' @ json_string i @ js '','' @
     json_string (js ''url'') @ js '':'' @ json_string u @ js ''}''"

text \<open>
  The current origin in the specification's sense: protocol and host of the location,
  joined as the template literal of the source joins them.
\<close>

definition origin :: "'n world \<Rightarrow> jsstring" where
  "origin w = protocol (location w) @ js ''//'' @ host (location w)"

text \<open>
  Test doubles: an actor whose remote call resolves with a given text, one whose remote
  call fails with a given error, and a world at a given location with no call issued yet.
\<close>

definition resolving_actor :: "jsstring \<Rightarrow> 'n Actor" where
  "resolving_actor text = \<lparr> createCheckoutSession = (\<lambda>items successUrl cancelUrl. Inr text) \<rparr>"

definition rejecting_actor :: "js_error \<Rightarrow> 'n Actor" where
  "rejecting_actor e = \<lparr> createCheckoutSession = (\<lambda>items successUrl cancelUrl. Inl e) \<rparr>"

definition world_at :: "jsstring \<Rightarrow> jsstring \<Rightarrow> 'n world" where
  "world_at p h = \<lparr> location = \<lparr> protocol = p, host = h \<rparr>, calls = [] \<rparr>"

definition example_items :: "nat ShoppingItem list" where
  "example_items = [\<lparr> priceId = js ''price_1'', quantity = 2 \<rparr>]"

definition example_world :: "nat world" where
  "example_world = world_at (js ''https:'') (js ''app.example'')"

definition other_world :: "nat world" where
  "other_world = world_at (js ''http:'') (js ''localhost:3000'')"

text \<open>The call the mutation is specified to issue for given items in a given world.\<close>

definition checkout_call :: "'n ShoppingItem list \<Rightarrow> 'n world \<Rightarrow> 'n remote_call" where
  "checkout_call items w =
     \<lparr> arg_items = items, arg_successUrl = origin w @ js ''/payment-success'',
       arg_cancelUrl = origin w @ js ''/payment-failure'' \<rparr>"

text \<open>The payloads of the specification's examples, and one of another shape.\<close>

definition payload_cs_1 :: jsstring where
  \<open>payload_cs_1 = js ''{"id":"cs_1","url":"https://pay.example/cs_1"}''\<close>

definition payload_not_json :: jsstring where
  "payload_not_json = js ''not json''"

definition payload_without_url :: jsstring where
  \<open>payload_without_url = js ''{"id":"cs_1"}''\<close>

definition payload_null :: jsstring where
  "payload_null = js ''null''"

section \<open>Verification\<close>

subsection \<open>Evaluation of the examples\<close>

lemma JSON_parse_cs_1:
  "JSON_parse payload_cs_1 =
     Inr (JObject [(js ''id'', JString (js ''cs_1'')),
                   (js ''url'', JString (js ''https://pay.example/cs_1''))])"
  by code_simp

lemma JSON_parse_not_json: "JSON_parse payload_not_json = Inl SyntaxError"
  by code_simp

lemma JSON_parse_without_url:
  "JSON_parse payload_without_url = Inr (JObject [(js ''id'', JString (js ''cs_1''))])"
  by code_simp

lemma as_CheckoutSession_cs_1:
  "as_CheckoutSession (JObject [(js ''id'', JString (js ''cs_1'')),
                                (js ''url'', JString (js ''https://pay.example/cs_1''))]) =
     Some \<lparr> id = js ''cs_1'', url = js ''https://pay.example/cs_1'' \<rparr>"
  by code_simp

lemma as_CheckoutSession_without_url:
  "as_CheckoutSession (JObject [(js ''id'', JString (js ''cs_1''))]) = None"
  by code_simp

lemma origin_example_world: "origin example_world = js ''https://app.example''"
  by (simp add: origin_def example_world_def world_at_def js_def)

lemma origin_other_world: "origin other_world = js ''http://localhost:3000''"
  by (simp add: origin_def other_world_def world_at_def js_def)

subsection \<open>The text of a session record parses to the record\<close>

lemma control_list: "map word_of_nat [0..<32] =
   ([0, 1, 2, 3, 4, 5, 6, 7, 8, 9, 10, 11, 12, 13, 14, 15, 16, 17, 18, 19, 20,
               21, 22, 23, 24, 25, 26, 27, 28, 29, 30, 31] :: 16 word list)"
  by code_simp

lemma control_cases:
  fixes c :: "16 word"
  assumes "c < 0x20"
  shows "c \<in> set [0, 1, 2, 3, 4, 5, 6, 7, 8, 9, 10, 11, 12, 13, 14, 15, 16, 17, 18, 19, 20,
               21, 22, 23, 24, 25, 26, 27, 28, 29, 30, 31]"
proof -
  from assms have "unat c < 32" by (simp add: word_less_nat_alt)
  then have "unat c \<in> set [0..<32]" by simp
  then have "word_of_nat (unat c) \<in> (word_of_nat ` set [0..<32] :: 16 word set)"
    by (rule imageI)
  then have "c \<in> set (map word_of_nat [0..<32])"
    by (simp only: of_nat_unat ucast_id set_map)
  then show ?thesis by (simp only: control_list)
qed


lemma lex_string_escape_control:
  "\<forall>c \<in> set [0, 1, 2, 3, 4, 5, 6, 7, 8, 9, 10, 11, 12, 13, 14, 15, 16, 17, 18, 19, 20,
               21, 22, 23, 24, 25, 26, 27, 28, 29, 30, 31].
     lex_string (json_escape c @ cs) acc = lex_string cs (c # acc)"
  by (simp add: json_escape_def hex_digit_def hex_value_def escape_value_def)

lemma lex_string_escape:
  "lex_string (json_escape c @ cs) acc = lex_string cs (c # acc)"
proof (cases "c < 0x20")
  case True
  from control_cases [OF True] lex_string_escape_control show ?thesis
    by blast
next
  case False
  then show ?thesis
    by (simp add: json_escape_def escape_value_def)
qed

lemma lex_string_encoded:
  "lex_string (concat (map json_escape s) @ 0x22 # rest) acc = Some (rev acc @ s, rest)"
proof (induction s arbitrary: acc)
  case Nil
  show ?case by simp
next
  case (Cons c s)
  have "lex_string (concat (map json_escape (c # s)) @ 0x22 # rest) acc =
        lex_string (json_escape c @ (concat (map json_escape s) @ 0x22 # rest)) acc"
    by simp
  also have "\<dots> = lex_string (concat (map json_escape s) @ 0x22 # rest) (c # acc)"
    by (rule lex_string_escape)
  also have "\<dots> = Some (rev (c # acc) @ s, rest)"
    by (rule Cons.IH)
  finally show ?case by simp
qed

lemma tokenize_json_string:
  "tokenize (json_string s @ rest) = map_option (Cons (TString s)) (tokenize rest)"
  by (simp add: json_string_def is_ws_def lex_string_encoded del: lex_string.simps)

lemma tokenize_session_text:
  "tokenize (session_text i u) =
     Some [TLBrace, TString (js ''id''), TColon, TString i, TComma,
           TString (js ''url''), TColon, TString u, TRBrace]"
  by (simp add: session_text_def js_def [of "''{''"] js_def [of "'':''"] js_def [of "'',''"]
      js_def [of "''}''"] tokenize_json_string is_ws_def)

lemma array_index_url: "array_index (js ''url'') = None"
  by code_simp

lemma js_url_neq_id: "js ''url'' \<noteq> js ''id''"
  by code_simp

lemma JSON_parse_session_text:
  "JSON_parse (session_text i u) =
     Inr (JObject [(js ''id'', JString i), (js ''url'', JString u)])"
  by (simp add: JSON_parse_def tokenize_session_text define_property_def array_index_url
      js_url_neq_id)

lemma as_CheckoutSession_object:
  "as_CheckoutSession (JObject [(js ''id'', JString i), (js ''url'', JString u)]) =
     Some \<lparr> id = i, url = u \<rparr>"
  using js_url_neq_id by simp

lemma payload_cs_1_session_text:
  "payload_cs_1 = session_text (js ''cs_1'') (js ''https://pay.example/cs_1'')"
  by code_simp

lemma JSON_parse_null: "JSON_parse payload_null = Inr JNull"
  by code_simp

text \<open>
  The mutation with a live actor, in the specification's terms: one call with the two
  redirect URLs built on the origin, then the remote failure or the parsed payload.
\<close>

lemma checkout_with_actor:
  "mutationFn (useCreateCheckoutSession (Some a)) items w =
     (case createCheckoutSession a items (origin w @ js ''/payment-success'')
             (origin w @ js ''/payment-failure'') of
        Inl e \<Rightarrow> Inl e
      | Inr result \<Rightarrow> JSON_parse result,
      w\<lparr> calls := calls w @ [checkout_call items w] \<rparr>)"
  by (simp add: useCreateCheckoutSession_def origin_def checkout_call_def Let_def
      split: sum.split)

subsection \<open>Feature access\<close>

text \<open>
  C1. For every feature name, scope and optional scopeId, the feature-access check resolves
  with \<^verbatim>\<open>{ hasAccess: true, plan: 'Free' }\<close> when the feature is in the always-free
  allow-list and with \<^verbatim>\<open>{ hasAccess: false, plan: 'Free', reason: 'stubbed' }\<close> when it is
  not, leaving the world as it was; the result is the same for any other scope and scopeId.
  (The allow-list of the code is empty, so only the second case occurs: see C2.)
\<close>

theorem canAccessFeature_by_allow_list:
  "queryFn (useCanAccessFeature feature scope scopeId) w =
     (if feature \<in> set freeAllowed
      then (Inr \<lparr> hasAccess = True, plan = Some Free, reason = None \<rparr>, w)
      else (Inr \<lparr> hasAccess = False, plan = Some Free, reason = Some (js ''stubbed'') \<rparr>, w))
   \<and> queryFn (useCanAccessFeature feature scope scopeId) w =
     queryFn (useCanAccessFeature feature scope' scopeId') w"
  by (simp add: useCanAccessFeature_def Let_def)

text \<open>
  C2. The allow-list of the code is empty: for every feature name, scope and scopeId the
  check resolves with exactly \<^verbatim>\<open>{ hasAccess: false, plan: 'Free', reason: 'stubbed' }\<close>,
  and so no input yields \<^verbatim>\<open>hasAccess = true\<close>.
\<close>

theorem canAccessFeature_always_denied:
  "queryFn (useCanAccessFeature feature scope scopeId) w =
     (Inr \<lparr> hasAccess = False, plan = Some Free, reason = Some (js ''stubbed'') \<rparr>, w)
   \<and> (case fst (queryFn (useCanAccessFeature feature scope scopeId) w) of
        Inl e \<Rightarrow> False
      | Inr access \<Rightarrow> \<not> hasAccess access)"
  by (simp add: useCanAccessFeature_def freeAllowed_def Let_def)

text \<open>
  C10. Each convenience check is the base check at its fixed feature name: pro-features at
  \<^verbatim>\<open>'pro_features'\<close> with scope \<^verbatim>\<open>'user'\<close> (which is also the base check's default),
  advanced-chat, social-feed and unlimited-announcements at their names with scope
  \<^verbatim>\<open>'club'\<close> when the scope is omitted, and with the given scope otherwise; the scopeId is
  passed on as it is.
\<close>

theorem convenience_checks_are_base_check:
  "useCanAccessProFeatures = useCanAccessFeature (js ''pro_features'') (Some User) None
   \<and> useCanAccessProFeatures = useCanAccessFeature (js ''pro_features'') None None
   \<and> useCanAccessAdvancedChat None scopeId =
       useCanAccessFeature (js ''advanced_chat'') (Some Club) scopeId
   \<and> useCanAccessAdvancedChat (Some scope) scopeId =
       useCanAccessFeature (js ''advanced_chat'') (Some scope) scopeId
   \<and> useCanAccessSocialFeed None scopeId =
       useCanAccessFeature (js ''social_feed'') (Some Club) scopeId
   \<and> useCanAccessSocialFeed (Some scope) scopeId =
       useCanAccessFeature (js ''social_feed'') (Some scope) scopeId
   \<and> useCanCreateUnlimitedAnnouncements None scopeId =
       useCanAccessFeature (js ''unlimited_announcements'') (Some Club) scopeId
   \<and> useCanCreateUnlimitedAnnouncements (Some scope) scopeId =
       useCanAccessFeature (js ''unlimited_announcements'') (Some scope) scopeId"
  by (simp add: useCanAccessProFeatures_def useCanAccessAdvancedChat_def
      useCanAccessSocialFeed_def useCanCreateUnlimitedAnnouncements_def
      useCanAccessFeature_def)

subsection \<open>Subscription stubs\<close>

text \<open>
  C8. The three subscription reads are constant and never fail: in every world the status
  query resolves with \<^verbatim>\<open>{ plan: 'Free', status: 'none' }\<close>, the has-pro-access query with
  \<^verbatim>\<open>false\<close> and the all-subscriptions query with the empty list, and the world is left
  as it was.
\<close>

theorem subscription_reads_constant:
  "queryFn useGetSubscriptionStatus w =
     (Inr \<lparr> current_plan = Free, status = NoSubscription \<rparr>, w)
   \<and> queryFn useHasProAccess w = (Inr False, w)
   \<and> queryFn useGetAllSubscriptions w = (Inr [], w)"
  by (simp add: useGetSubscriptionStatus_def useHasProAccess_def useGetAllSubscriptions_def)

text \<open>
  C9. The upgrade mutation, for every optional argument, and the cancel mutation each
  resolve with \<^verbatim>\<open>{ success: false }\<close>, never reject, and leave the world as it was.
\<close>

theorem upgrade_and_cancel_resolve_unsuccessful:
  "mutationFn useUpgradeToProPlan opts w = (Inr \<lparr> success = False \<rparr>, w)
   \<and> mutationFn useCancelProSubscription u w = (Inr \<lparr> success = False \<rparr>, w)"
  by (simp add: useUpgradeToProPlan_def useCancelProSubscription_def)

subsection \<open>Checkout session creation\<close>

text \<open>
  C3. For every list of items and every world, with no live actor the checkout mutation
  rejects with the error \<^verbatim>\<open>Actor not available\<close> and leaves the world as it was: no
  remote call is issued.
\<close>

theorem checkout_without_actor_rejects:
  "mutationFn (useCreateCheckoutSession None) items w =
     (Inl (Error (js ''Actor not available'')), w)"
  by (simp add: useCreateCheckoutSession_def)

text \<open>
  C4, as stated, fails in its general part: the text \<^verbatim>\<open>null\<close> is valid JSON, the mutation
  resolves with the value \<^verbatim>\<open>null\<close>, and that success value is not a CheckoutSession
  record.
\<close>

theorem checkout_null_resolves:
  "createCheckoutSession (resolving_actor payload_null) example_items
       (origin example_world @ js ''/payment-success'')
       (origin example_world @ js ''/payment-failure'') = Inr payload_null
   \<and> fst (mutationFn (useCreateCheckoutSession (Some (resolving_actor payload_null)))
          example_items example_world) = Inr JNull
   \<and> as_CheckoutSession JNull = None"
proof (intro conjI)
  show "createCheckoutSession (resolving_actor payload_null) example_items
       (origin example_world @ js ''/payment-success'')
       (origin example_world @ js ''/payment-failure'') = Inr payload_null"
    by (simp add: resolving_actor_def)
next
  show "fst (mutationFn (useCreateCheckoutSession (Some (resolving_actor payload_null)))
          example_items example_world) = Inr JNull"
    by (simp add: checkout_with_actor resolving_actor_def JSON_parse_null)
next
  show "as_CheckoutSession JNull = None"
    by simp
qed

text \<open>
  C4, amended. With a live actor whose remote call resolves with the text
  \<^verbatim>\<open>{"id":"cs_1","url":"https://pay.example/cs_1"}\<close>, the mutation resolves with the object
  of those two properties, the record \<^verbatim>\<open>{ id: "cs_1", url: "https://pay.example/cs_1" }\<close>.
  In general, when the remote call resolves with the JSON text of a session record, for any
  two strings as id and url, the mutation resolves with the object of those two properties,
  which is that record; and whenever the payload deserializes into a value of the shape of
  a CheckoutSession record, the success value is that record.
\<close>

theorem checkout_resolves_with_session_record:
  assumes "createCheckoutSession a items (origin w @ js ''/payment-success'')
             (origin w @ js ''/payment-failure'') = Inr text"
  shows "(text = payload_cs_1 \<longrightarrow>
          fst (mutationFn (useCreateCheckoutSession (Some a)) items w) =
            Inr (JObject [(js ''id'', JString (js ''cs_1'')),
                          (js ''url'', JString (js ''https://pay.example/cs_1''))])
          \<and> as_CheckoutSession (JObject [(js ''id'', JString (js ''cs_1'')),
                          (js ''url'', JString (js ''https://pay.example/cs_1''))]) =
            Some \<lparr> id = js ''cs_1'', url = js ''https://pay.example/cs_1'' \<rparr>)
     \<and> (text = session_text i u \<longrightarrow>
          fst (mutationFn (useCreateCheckoutSession (Some a)) items w) =
            Inr (JObject [(js ''id'', JString i), (js ''url'', JString u)])
          \<and> as_CheckoutSession (JObject [(js ''id'', JString i), (js ''url'', JString u)]) =
            Some \<lparr> id = i, url = u \<rparr>)
     \<and> (resolved_session (JSON_parse text) = Some r \<longrightarrow>
          resolved_session (fst (mutationFn (useCreateCheckoutSession (Some a)) items w)) =
            Some r)"
proof -
  have run: "fst (mutationFn (useCreateCheckoutSession (Some a)) items w) = JSON_parse text"
    using assms by (simp add: checkout_with_actor)
  show ?thesis
  proof (intro conjI impI)
    assume "text = payload_cs_1"
    with run show "fst (mutationFn (useCreateCheckoutSession (Some a)) items w) =
        Inr (JObject [(js ''id'', JString (js ''cs_1'')),
                      (js ''url'', JString (js ''https://pay.example/cs_1''))])"
      by (simp only: JSON_parse_cs_1)
  next
    show "as_CheckoutSession (JObject [(js ''id'', JString (js ''cs_1'')),
                      (js ''url'', JString (js ''https://pay.example/cs_1''))]) =
        Some \<lparr> id = js ''cs_1'', url = js ''https://pay.example/cs_1'' \<rparr>"
      by (rule as_CheckoutSession_cs_1)
  next
    assume "text = session_text i u"
    with run show "fst (mutationFn (useCreateCheckoutSession (Some a)) items w) =
        Inr (JObject [(js ''id'', JString i), (js ''url'', JString u)])"
      by (simp only: JSON_parse_session_text)
  next
    show "as_CheckoutSession (JObject [(js ''id'', JString i), (js ''url'', JString u)]) =
        Some \<lparr> id = i, url = u \<rparr>"
      by (rule as_CheckoutSession_object)
  next
    assume "resolved_session (JSON_parse text) = Some r"
    with run show "resolved_session
        (fst (mutationFn (useCreateCheckoutSession (Some a)) items w)) = Some r"
      by (simp only:)
  qed
qed

theorem checkout_resolves_with_session_record_witness:
  "createCheckoutSession (resolving_actor payload_cs_1) example_items
       (origin example_world @ js ''/payment-success'')
       (origin example_world @ js ''/payment-failure'') = Inr payload_cs_1
   \<and> payload_cs_1 = session_text (js ''cs_1'') (js ''https://pay.example/cs_1'')
   \<and> resolved_session (JSON_parse payload_cs_1) =
       Some \<lparr> id = js ''cs_1'', url = js ''https://pay.example/cs_1'' \<rparr>
   \<and> fst (mutationFn (useCreateCheckoutSession (Some (resolving_actor payload_cs_1)))
          example_items example_world) =
       Inr (JObject [(js ''id'', JString (js ''cs_1'')),
                     (js ''url'', JString (js ''https://pay.example/cs_1''))])
   \<and> as_CheckoutSession (JObject [(js ''id'', JString (js ''cs_1'')),
                     (js ''url'', JString (js ''https://pay.example/cs_1''))]) =
       Some \<lparr> id = js ''cs_1'', url = js ''https://pay.example/cs_1'' \<rparr>
   \<and> resolved_session
         (fst (mutationFn (useCreateCheckoutSession (Some (resolving_actor payload_cs_1)))
            example_items example_world)) =
       Some \<lparr> id = js ''cs_1'', url = js ''https://pay.example/cs_1'' \<rparr>"
proof -
  have remote: "createCheckoutSession (resolving_actor payload_cs_1) example_items
      (origin example_world @ js ''/payment-success'')
      (origin example_world @ js ''/payment-failure'') = Inr payload_cs_1"
    by (simp add: resolving_actor_def)
  have encoded: "payload_cs_1 = session_text (js ''cs_1'') (js ''https://pay.example/cs_1'')"
    by (rule payload_cs_1_session_text)
  have parsed: "resolved_session (JSON_parse payload_cs_1) =
      Some \<lparr> id = js ''cs_1'', url = js ''https://pay.example/cs_1'' \<rparr>"
    by (simp only: JSON_parse_cs_1 resolved_session_def sum.case as_CheckoutSession_cs_1)
  from checkout_resolves_with_session_record
    [OF remote, of "js ''cs_1''" "js ''https://pay.example/cs_1''"
       "\<lparr> id = js ''cs_1'', url = js ''https://pay.example/cs_1'' \<rparr>"]
    remote encoded parsed
  show ?thesis by blast
qed

text \<open>
  C5, as stated, fails: the text \<^verbatim>\<open>{"id":"cs_1"}\<close> is not of the expected record shape
  (it has no \<^verbatim>\<open>url\<close>), yet it is valid JSON, and the mutation resolves with the parsed
  object instead of rejecting.
\<close>

theorem checkout_wrong_shape_resolves:
  "createCheckoutSession (resolving_actor payload_without_url) example_items
       (origin example_world @ js ''/payment-success'')
       (origin example_world @ js ''/payment-failure'') = Inr payload_without_url
   \<and> JSON_parse payload_without_url = Inr (JObject [(js ''id'', JString (js ''cs_1''))])
   \<and> as_CheckoutSession (JObject [(js ''id'', JString (js ''cs_1''))]) = None
   \<and> fst (mutationFn (useCreateCheckoutSession (Some (resolving_actor payload_without_url)))
          example_items example_world) =
       Inr (JObject [(js ''id'', JString (js ''cs_1''))])"
proof (intro conjI)
  show "createCheckoutSession (resolving_actor payload_without_url) example_items
       (origin example_world @ js ''/payment-success'')
       (origin example_world @ js ''/payment-failure'') = Inr payload_without_url"
    by (simp add: resolving_actor_def)
next
  show "JSON_parse payload_without_url = Inr (JObject [(js ''id'', JString (js ''cs_1''))])"
    by (rule JSON_parse_without_url)
next
  show "as_CheckoutSession (JObject [(js ''id'', JString (js ''cs_1''))]) = None"
    by (rule as_CheckoutSession_without_url)
next
  show "fst (mutationFn (useCreateCheckoutSession (Some (resolving_actor payload_without_url)))
          example_items example_world) =
       Inr (JObject [(js ''id'', JString (js ''cs_1''))])"
    by (simp add: checkout_with_actor resolving_actor_def JSON_parse_without_url)
qed

text \<open>
  C5, amended. With a live actor whose remote call resolves with a text that is not valid
  JSON (for example \<^verbatim>\<open>not json\<close>), the mutation rejects with the failure of the parse,
  a \<^verbatim>\<open>SyntaxError\<close>.
\<close>

theorem checkout_rejects_invalid_json:
  assumes "createCheckoutSession a items (origin w @ js ''/payment-success'')
             (origin w @ js ''/payment-failure'') = Inr text"
  shows "(JSON_parse text = Inl e \<longrightarrow>
            fst (mutationFn (useCreateCheckoutSession (Some a)) items w) = Inl e)
     \<and> (text = payload_not_json \<longrightarrow>
            fst (mutationFn (useCreateCheckoutSession (Some a)) items w) = Inl SyntaxError)"
  using assms by (simp add: checkout_with_actor JSON_parse_not_json)

theorem checkout_rejects_invalid_json_witness:
  "createCheckoutSession (resolving_actor payload_not_json) example_items
       (origin example_world @ js ''/payment-success'')
       (origin example_world @ js ''/payment-failure'') = Inr payload_not_json
   \<and> JSON_parse payload_not_json = Inl SyntaxError
   \<and> fst (mutationFn (useCreateCheckoutSession (Some (resolving_actor payload_not_json)))
          example_items example_world) = Inl SyntaxError"
proof -
  have remote: "createCheckoutSession (resolving_actor payload_not_json) example_items
      (origin example_world @ js ''/payment-success'')
      (origin example_world @ js ''/payment-failure'') = Inr payload_not_json"
    by (simp add: resolving_actor_def)
  have parse: "JSON_parse payload_not_json = Inl SyntaxError"
    by (rule JSON_parse_not_json)
  from checkout_rejects_invalid_json [OF remote, of SyntaxError] remote parse show ?thesis
    by blast
qed

text \<open>
  C6. With a live actor the mutation appends one call to the log, whose success URL is the
  origin of the world it runs in followed by \<^verbatim>\<open>/payment-success\<close> and whose cancel URL
  is that origin followed by \<^verbatim>\<open>/payment-failure\<close>; run in two worlds of different
  origins, it passes different success URLs and different cancel URLs.
\<close>

theorem checkout_redirect_urls:
  "calls (snd (mutationFn (useCreateCheckoutSession (Some a)) items w)) =
     calls w @ [\<lparr> arg_items = items,
                  arg_successUrl = origin w @ js ''/payment-success'',
                  arg_cancelUrl = origin w @ js ''/payment-failure'' \<rparr>]
   \<and> (origin w \<noteq> origin w' \<longrightarrow>
        arg_successUrl (last (calls (snd (mutationFn (useCreateCheckoutSession (Some a)) items w)))) \<noteq>
        arg_successUrl (last (calls (snd (mutationFn (useCreateCheckoutSession (Some a)) items w'))))
      \<and> arg_cancelUrl (last (calls (snd (mutationFn (useCreateCheckoutSession (Some a)) items w)))) \<noteq>
        arg_cancelUrl (last (calls (snd (mutationFn (useCreateCheckoutSession (Some a)) items w')))))"
  by (simp add: checkout_with_actor checkout_call_def)

theorem checkout_redirect_urls_witness:
  "origin example_world \<noteq> origin other_world
   \<and> calls (snd (mutationFn (useCreateCheckoutSession (Some (resolving_actor payload_cs_1)))
        example_items example_world)) =
       [\<lparr> arg_items = example_items,
          arg_successUrl = js ''https://app.example/payment-success'',
          arg_cancelUrl = js ''https://app.example/payment-failure'' \<rparr>]
   \<and> arg_successUrl (last (calls (snd (mutationFn
        (useCreateCheckoutSession (Some (resolving_actor payload_cs_1)))
        example_items example_world)))) \<noteq>
     arg_successUrl (last (calls (snd (mutationFn
        (useCreateCheckoutSession (Some (resolving_actor payload_cs_1)))
        example_items other_world))))
   \<and> arg_cancelUrl (last (calls (snd (mutationFn
        (useCreateCheckoutSession (Some (resolving_actor payload_cs_1)))
        example_items example_world)))) \<noteq>
     arg_cancelUrl (last (calls (snd (mutationFn
        (useCreateCheckoutSession (Some (resolving_actor payload_cs_1)))
        example_items other_world))))"
proof -
  have differ: "origin example_world \<noteq> origin other_world"
    by (simp add: origin_example_world origin_other_world js_def)
  have no_calls: "calls example_world = []"
    by (simp add: example_world_def world_at_def)
  have urls: "origin example_world @ js ''/payment-success'' = js ''https://app.example/payment-success''"
    "origin example_world @ js ''/payment-failure'' = js ''https://app.example/payment-failure''"
    by (simp_all add: origin_example_world js_def)
  note inst = checkout_redirect_urls
    [of "resolving_actor payload_cs_1" example_items example_world other_world]
  from inst have "calls (snd (mutationFn
        (useCreateCheckoutSession (Some (resolving_actor payload_cs_1)))
        example_items example_world)) =
      calls example_world @ [\<lparr> arg_items = example_items,
        arg_successUrl = origin example_world @ js ''/payment-success'',
        arg_cancelUrl = origin example_world @ js ''/payment-failure'' \<rparr>]"
    by (rule conjunct1)
  then have issued: "calls (snd (mutationFn
        (useCreateCheckoutSession (Some (resolving_actor payload_cs_1)))
        example_items example_world)) =
      [\<lparr> arg_items = example_items,
         arg_successUrl = js ''https://app.example/payment-success'',
         arg_cancelUrl = js ''https://app.example/payment-failure'' \<rparr>]"
    by (simp only: no_calls urls append_Nil)
  from inst [THEN conjunct2, THEN mp, OF differ] differ issued show ?thesis
    by blast
qed

text \<open>
  C7. With a live actor the mutation issues exactly one remote call, whatever the outcome;
  when that call fails with an error, the mutation rejects with the same error, and the
  log holds that one call only.
\<close>

theorem checkout_one_call_failure_unchanged:
  "calls (snd (mutationFn (useCreateCheckoutSession (Some a)) items w)) =
     calls w @ [checkout_call items w]
   \<and> (createCheckoutSession a items (origin w @ js ''/payment-success'')
         (origin w @ js ''/payment-failure'') = Inl e \<longrightarrow>
       mutationFn (useCreateCheckoutSession (Some a)) items w =
         (Inl e, w\<lparr> calls := calls w @ [checkout_call items w] \<rparr>))"
  by (simp add: checkout_with_actor)

theorem checkout_one_call_failure_unchanged_witness:
  "createCheckoutSession (rejecting_actor (RemoteFailure (js ''network down''))) example_items
       (origin example_world @ js ''/payment-success'')
       (origin example_world @ js ''/payment-failure'') =
     Inl (RemoteFailure (js ''network down''))
   \<and> calls (snd (mutationFn
        (useCreateCheckoutSession (Some (rejecting_actor (RemoteFailure (js ''network down'')))))
        example_items example_world)) =
     calls example_world @ [checkout_call example_items example_world]
   \<and> mutationFn
        (useCreateCheckoutSession (Some (rejecting_actor (RemoteFailure (js ''network down'')))))
        example_items example_world =
     (Inl (RemoteFailure (js ''network down'')),
      example_world\<lparr> calls := calls example_world @
        [checkout_call example_items example_world] \<rparr>)"
proof -
  have remote: "createCheckoutSession (rejecting_actor (RemoteFailure (js ''network down'')))
       example_items (origin example_world @ js ''/payment-success'')
       (origin example_world @ js ''/payment-failure'') =
     Inl (RemoteFailure (js ''network down''))"
    by (simp add: rejecting_actor_def)
  from checkout_one_call_failure_unchanged
    [of "rejecting_actor (RemoteFailure (js ''network down''))" example_items example_world
        "RemoteFailure (js ''network down'')"] remote
  show ?thesis by blast
qed

end
